theory Spec2Isabelle
  imports Complex_Main
begin

section \<open>The JavaScript values the geocoding service handles\<close>

text \<open>
  The service \<^verbatim>\<open>src/services/geocodingService.ts\<close> turns a free-text address into a
  coordinate pair, with a module-level cache and a regional fallback. It is thin code over
  built-ins of the JavaScript runtime (\<^verbatim>\<open>String.prototype.trim\<close>, \<^verbatim>\<open>toLowerCase\<close>,
  \<^verbatim>\<open>includes\<close>, \<^verbatim>\<open>parseFloat\<close>, truthiness, property access on an untyped JSON value), so
  this first section models those built-ins, and the next sections embed the two exported
  functions line by line.

  A JavaScript number is an IEEE double. It is modelled as \<open>NaN\<close>, the two infinities, or a
  finite real. Rounding to the nearest double is not modelled: a decimal string denotes its
  exact value. Only the concrete examples below compute with the reading of strings; the
  general properties hold for whatever number \<^verbatim>\<open>parseFloat\<close> reads from a string.
\<close>

datatype jsnum = NaN | PosInfinity | NegInfinity | Fin real

text \<open>The relational operators \<^verbatim>\<open><\<close> and \<^verbatim>\<open>></\<close> on numbers: false whenever an operand is NaN.\<close>

fun js_lt :: "jsnum \<Rightarrow> jsnum \<Rightarrow> bool" where
  "js_lt NaN _ = False"
| "js_lt _ NaN = False"
| "js_lt PosInfinity _ = False"
| "js_lt _ PosInfinity = True"
| "js_lt _ NegInfinity = False"
| "js_lt NegInfinity _ = True"
| "js_lt (Fin x) (Fin y) = (x < y)"

definition js_gt :: "jsnum \<Rightarrow> jsnum \<Rightarrow> bool" where
  "js_gt a b = js_lt b a"

definition isNaN :: "jsnum \<Rightarrow> bool" where
  "isNaN n = (n = NaN)"

text \<open>
  A value as \<^verbatim>\<open>response.json()\<close> produces it (\<^verbatim>\<open>any\<close> in the source), together with
  \<^verbatim>\<open>undefined\<close>, which reading a missing property yields. An object is the list of its own
  properties; the first binding of a key is the one that counts.
\<close>

datatype jsval =
    JUndefined
  | JNull
  | JBool bool
  | JNum jsnum
  | JStr string
  | JArr "jsval list"
  | JObj "(string \<times> jsval) list"

text \<open>What the source can throw, one constructor for each \<^verbatim>\<open>throw\<close> and each failing built-in.\<close>

datatype thrown =
    RequestFailed nat        \<comment> \<open>\<^verbatim>\<open>throw new Error(`Geocoding request failed: ${response.status}`)\<close>\<close>
  | InvalidCoordinates       \<comment> \<open>\<^verbatim>\<open>throw new Error('Invalid coordinates returned')\<close>\<close>
  | AddressNotFound          \<comment> \<open>\<^verbatim>\<open>throw new Error('Address not found')\<close>\<close>
  | FetchRejected            \<comment> \<open>the promise of \<^verbatim>\<open>fetch\<close> rejects: no response from the network\<close>
  | BodyNotJson              \<comment> \<open>the promise of \<^verbatim>\<open>response.json()\<close> rejects: the body is not JSON\<close>
  | TypeError                \<comment> \<open>a property is read from \<^verbatim>\<open>null\<close> or \<^verbatim>\<open>undefined\<close>\<close>

text \<open>Truthiness (\<^verbatim>\<open>ToBoolean\<close>), as \<^verbatim>\<open>&&\<close>, \<^verbatim>\<open>||\<close>, \<^verbatim>\<open>!\<close> and \<^verbatim>\<open>if\<close> use it.\<close>

fun truthy :: "jsval \<Rightarrow> bool" where
  "truthy JUndefined = False"
| "truthy JNull = False"
| "truthy (JBool b) = b"
| "truthy (JNum n) = (n \<noteq> NaN \<and> n \<noteq> Fin 0)"
| "truthy (JStr s) = (s \<noteq> [])"
| "truthy (JArr _) = True"
| "truthy (JObj _) = True"

subsection \<open>Strings\<close>

text \<open>
  A JavaScript string is a sequence of UTF-16 code units; \<open>string\<close> has 8-bit characters, so
  the model covers the strings whose code units lie below 256 (Latin-1), and \<open>length\<close> is the
  \<^verbatim>\<open>length\<close> property. The white space that \<^verbatim>\<open>trim\<close> and \<^verbatim>\<open>parseFloat\<close> strip is, in this
  range: tab, line feed, vertical tab, form feed, carriage return, space and no-break space.
\<close>

definition is_white_space :: "char \<Rightarrow> bool" where
  "is_white_space c = ((of_char c :: nat) \<in> {9, 10, 11, 12, 13, 32, 160})"

definition trim_start :: "string \<Rightarrow> string" where
  "trim_start s = dropWhile is_white_space s"

definition trim :: "string \<Rightarrow> string" where
  "trim s = rev (dropWhile is_white_space (rev (dropWhile is_white_space s)))"

text \<open>
  \<^verbatim>\<open>toLowerCase\<close>: in Latin-1 the letters with a lower-case partner are A to Z and
  U+00C0 to U+00DE without the multiplication sign U+00D7; the partner is 32 places up.
\<close>

definition lower_char :: "char \<Rightarrow> char" where
  "lower_char c =
     (let n = (of_char c :: nat)
      in if (65 \<le> n \<and> n \<le> 90) \<or> (192 \<le> n \<and> n \<le> 222 \<and> n \<noteq> 215)
         then char_of (n + 32) else c)"

definition toLowerCase :: "string \<Rightarrow> string" where
  "toLowerCase s = map lower_char s"

text \<open>\<^verbatim>\<open>s.includes(t)\<close>: \<open>t\<close> occurs in \<open>s\<close> at some position.\<close>

fun is_prefix :: "string \<Rightarrow> string \<Rightarrow> bool" where
  "is_prefix [] _ = True"
| "is_prefix (_ # _) [] = False"
| "is_prefix (a # t) (b # s) = (a = b \<and> is_prefix t s)"

fun js_includes :: "string \<Rightarrow> string \<Rightarrow> bool" where
  "js_includes [] t = (t = [])"
| "js_includes (c # s) t = (is_prefix t (c # s) \<or> js_includes s t)"

subsection \<open>Reading numbers from strings\<close>

definition is_digit :: "char \<Rightarrow> bool" where
  "is_digit c = (48 \<le> (of_char c :: nat) \<and> (of_char c :: nat) \<le> 57)"

definition digit_val :: "char \<Rightarrow> nat" where
  "digit_val c = (of_char c :: nat) - 48"

definition digits_val :: "string \<Rightarrow> nat" where
  "digits_val ds = foldl (\<lambda>n c. 10 * n + digit_val c) 0 ds"

text \<open>
  The exponent part of a decimal literal: \<^verbatim>\<open>e\<close> or \<^verbatim>\<open>E\<close>, an optional sign and at least one
  digit. Returns the exponent and the rest of the string, or \<open>None\<close> when the string does
  not start with an exponent part (then nothing is consumed).
\<close>

definition exponent_part :: "string \<Rightarrow> (int \<times> string) option" where
  "exponent_part s =
     (case s of
        [] \<Rightarrow> None
      | e # t \<Rightarrow>
          if e = CHR ''e'' \<or> e = CHR ''E'' then
            (let neg = (t \<noteq> [] \<and> hd t = CHR ''-'');
                 u = (if t \<noteq> [] \<and> (hd t = CHR ''+'' \<or> hd t = CHR ''-'') then tl t else t);
                 ds = takeWhile is_digit u
             in if ds = [] then None
                else Some (if neg then - int (digits_val ds) else int (digits_val ds),
                           dropWhile is_digit u))
          else None)"

definition scale10 :: "real \<Rightarrow> int \<Rightarrow> real" where
  "scale10 m e = (if 0 \<le> e then m * 10 ^ nat e else m / 10 ^ nat (- e))"

text \<open>
  The longest prefix that is an unsigned decimal literal (\<^verbatim>\<open>12\<close>, \<^verbatim>\<open>12.\<close>, \<^verbatim>\<open>12.5\<close>, \<^verbatim>\<open>.5\<close>,
  each with an optional exponent), its value and the rest of the string.
\<close>

definition unsigned_decimal :: "string \<Rightarrow> (real \<times> string) option" where
  "unsigned_decimal s =
     (let ip = takeWhile is_digit s;
          r1 = dropWhile is_digit s;
          dot = (r1 \<noteq> [] \<and> hd r1 = CHR ''.'');
          fp = (if dot then takeWhile is_digit (tl r1) else []);
          r2 = (if dot then dropWhile is_digit (tl r1) else r1)
      in if ip = [] \<and> fp = [] then None
         else
           (let m = real (digits_val ip) + real (digits_val fp) / 10 ^ length fp
            in case exponent_part r2 of
                 None \<Rightarrow> Some (m, r2)
               | Some (e, r3) \<Rightarrow> Some (scale10 m e, r3)))"

definition unsigned_literal :: "string \<Rightarrow> (jsnum \<times> string) option" where
  "unsigned_literal s =
     (if is_prefix ''Infinity'' s then Some (PosInfinity, drop 8 s)
      else map_option (\<lambda>(x, r). (Fin x, r)) (unsigned_decimal s))"

fun negate :: "jsnum \<Rightarrow> jsnum" where
  "negate NaN = NaN"
| "negate PosInfinity = NegInfinity"
| "negate NegInfinity = PosInfinity"
| "negate (Fin x) = Fin (- x)"

definition signed_literal :: "string \<Rightarrow> (jsnum \<times> string) option" where
  "signed_literal s =
     (case s of
        [] \<Rightarrow> None
      | c # t \<Rightarrow>
          if c = CHR ''+'' then unsigned_literal t
          else if c = CHR ''-'' then map_option (\<lambda>(v, r). (negate v, r)) (unsigned_literal t)
          else unsigned_literal s)"

text \<open>
  \<^verbatim>\<open>parseFloat\<close> on a string: leading white space is skipped, the longest prefix that is a
  signed decimal literal or \<^verbatim>\<open>Infinity\<close> is read, what follows is ignored; NaN when there is
  no such prefix.
\<close>

definition parseFloat_string :: "string \<Rightarrow> jsnum" where
  "parseFloat_string s =
     (case signed_literal (trim_start s) of None \<Rightarrow> NaN | Some (v, _) \<Rightarrow> v)"

text \<open>
  \<^verbatim>\<open>parseFloat\<close> on any value converts it to a string first. A number prints to a string that
  reads back as the same number; \<^verbatim>\<open>undefined\<close>, \<^verbatim>\<open>null\<close>, booleans and objects print to
  text that is no number; an array prints its elements joined by commas, so only its first
  element can be read (an empty array, or a first element \<^verbatim>\<open>null\<close>, prints nothing there).
\<close>

fun parseFloat :: "jsval \<Rightarrow> jsnum" where
  "parseFloat JUndefined = NaN"
| "parseFloat JNull = NaN"
| "parseFloat (JBool _) = NaN"
| "parseFloat (JNum n) = n"
| "parseFloat (JStr s) = parseFloat_string s"
| "parseFloat (JArr []) = NaN"
| "parseFloat (JArr (x # _)) = parseFloat x"
| "parseFloat (JObj _) = NaN"

subsection \<open>Numeric conversion and property access\<close>

text \<open>
  \<^verbatim>\<open>data.length > 0\<close> compares a value with a number, which converts the value with
  \<^verbatim>\<open>ToNumber\<close>. On a string that conversion reads the whole trimmed string as a numeric
  literal (decimal, or hexadecimal, octal or binary with its \<^verbatim>\<open>0x\<close>, \<^verbatim>\<open>0o\<close>, \<^verbatim>\<open>0b\<close> prefix);
  the empty string is 0 and anything else is NaN.
\<close>

definition radix_digit :: "char \<Rightarrow> nat" where
  "radix_digit c =
     (let n = (of_char c :: nat)
      in if 48 \<le> n \<and> n \<le> 57 then n - 48
         else if 97 \<le> n \<and> n \<le> 102 then n - 87
         else if 65 \<le> n \<and> n \<le> 70 then n - 55
         else 16)"

definition radix_literal :: "nat \<Rightarrow> string \<Rightarrow> jsnum" where
  "radix_literal b ds =
     (if ds \<noteq> [] \<and> list_all (\<lambda>c. radix_digit c < b) ds
      then Fin (real (foldl (\<lambda>n c. b * n + radix_digit c) 0 ds))
      else NaN)"

definition stringToNumber :: "string \<Rightarrow> jsnum" where
  "stringToNumber s =
     (let t = trim s
      in if t = [] then Fin 0
         else if is_prefix ''0x'' t \<or> is_prefix ''0X'' t then radix_literal 16 (drop 2 t)
         else if is_prefix ''0o'' t \<or> is_prefix ''0O'' t then radix_literal 8 (drop 2 t)
         else if is_prefix ''0b'' t \<or> is_prefix ''0B'' t then radix_literal 2 (drop 2 t)
         else (case signed_literal t of
                 None \<Rightarrow> NaN
               | Some (v, r) \<Rightarrow> if r = [] then v else NaN))"

text \<open>
  \<^verbatim>\<open>ToNumber\<close> on any value. An array converts through its printed form: nothing for the
  empty array, the printed element for a single element (nothing for \<^verbatim>\<open>null\<close> and
  \<^verbatim>\<open>undefined\<close>), and text with a comma, which is no number, for two elements or more.
\<close>

fun toNumber :: "jsval \<Rightarrow> jsnum" where
  "toNumber JUndefined = NaN"
| "toNumber JNull = Fin 0"
| "toNumber (JBool b) = Fin (if b then 1 else 0)"
| "toNumber (JNum n) = n"
| "toNumber (JStr s) = stringToNumber s"
| "toNumber (JArr []) = Fin 0"
| "toNumber (JArr [JUndefined]) = Fin 0"
| "toNumber (JArr [JNull]) = Fin 0"
| "toNumber (JArr [JBool _]) = NaN"
| "toNumber (JArr [JObj _]) = NaN"
| "toNumber (JArr [x]) = toNumber x"
| "toNumber (JArr (_ # _ # _)) = NaN"
| "toNumber (JObj _) = NaN"

text \<open>
  Reading a property. \<^verbatim>\<open>null\<close> and \<^verbatim>\<open>undefined\<close> have none, and reading one throws a
  TypeError; booleans and numbers have none of the properties this code reads. The three
  accessors are the three forms the source uses: \<^verbatim>\<open>v.length\<close>, \<^verbatim>\<open>v[0]\<close>, and \<^verbatim>\<open>v.k\<close> for
  the keys \<^verbatim>\<open>lat\<close>, \<^verbatim>\<open>lon\<close> and \<^verbatim>\<open>display_name\<close>, which no string or array has.
\<close>

definition own_property :: "(string \<times> jsval) list \<Rightarrow> string \<Rightarrow> jsval" where
  "own_property kvs k = (case map_of kvs k of None \<Rightarrow> JUndefined | Some v \<Rightarrow> v)"

fun js_length :: "jsval \<Rightarrow> thrown + jsval" where
  "js_length JUndefined = Inl TypeError"
| "js_length JNull = Inl TypeError"
| "js_length (JBool _) = Inr JUndefined"
| "js_length (JNum _) = Inr JUndefined"
| "js_length (JStr s) = Inr (JNum (Fin (real (length s))))"
| "js_length (JArr xs) = Inr (JNum (Fin (real (length xs))))"
| "js_length (JObj kvs) = Inr (own_property kvs ''length'')"

fun js_first :: "jsval \<Rightarrow> thrown + jsval" where
  "js_first JUndefined = Inl TypeError"
| "js_first JNull = Inl TypeError"
| "js_first (JBool _) = Inr JUndefined"
| "js_first (JNum _) = Inr JUndefined"
| "js_first (JStr []) = Inr JUndefined"
| "js_first (JStr (c # _)) = Inr (JStr [c])"
| "js_first (JArr []) = Inr JUndefined"
| "js_first (JArr (x # _)) = Inr x"
| "js_first (JObj kvs) = Inr (own_property kvs ''0'')"

fun js_prop :: "jsval \<Rightarrow> string \<Rightarrow> thrown + jsval" where
  "js_prop JUndefined _ = Inl TypeError"
| "js_prop JNull _ = Inl TypeError"
| "js_prop (JObj kvs) k = Inr (own_property kvs k)"
| "js_prop _ _ = Inr JUndefined"

text \<open>Sequencing of steps that may throw: the first throw ends the sequence.\<close>

definition and_then :: "thrown + 'a \<Rightarrow> ('a \<Rightarrow> thrown + 'b) \<Rightarrow> thrown + 'b" where
  "and_then m f = (case m of Inl e \<Rightarrow> Inl e | Inr x \<Rightarrow> f x)"

section \<open>The data model of the service\<close>

text \<open>
  \<^verbatim>\<open>interface Coordinates { lat: number; lng: number }\<close> and
  \<^verbatim>\<open>interface GeocodingResult { coordinates: Coordinates; formattedAddress: string }\<close>.
  The declared type of \<^verbatim>\<open>formattedAddress\<close> is \<^verbatim>\<open>string\<close>, but the types are erased at run
  time and line 56 stores \<^verbatim>\<open>data[0].display_name || cleanAddress\<close>, where \<^verbatim>\<open>data\<close> is untyped
  JSON; the field therefore holds a value, which is a string whenever the provider sent one.
\<close>

record Coordinates =
  lat :: jsnum
  lng :: jsnum

record GeocodingResult =
  coordinates :: Coordinates
  formattedAddress :: jsval

text \<open>The table \<^verbatim>\<open>fallbackCoordinates\<close> (lines 13 to 18), indexed by its four keys.\<close>

datatype region = Us | Europe | Asia | Default

fun fallbackCoordinates :: "region \<Rightarrow> Coordinates" where
  "fallbackCoordinates Us = \<lparr>lat = Fin 39.8283, lng = Fin (- 98.5795)\<rparr>"
| "fallbackCoordinates Europe = \<lparr>lat = Fin 54.5260, lng = Fin 15.2551\<rparr>"
| "fallbackCoordinates Asia = \<lparr>lat = Fin 34.0479, lng = Fin 100.6197\<rparr>"
| "fallbackCoordinates Default = \<lparr>lat = Fin 39.8283, lng = Fin (- 98.5795)\<rparr>"

text \<open>
  What one call of \<^verbatim>\<open>fetch\<close> followed by \<^verbatim>\<open>response.json()\<close> can give once its promises
  settle: no response at all (the promise rejects), or a response with its HTTP status and
  its body, \<open>None\<close> when the body is not JSON. \<^verbatim>\<open>response.ok\<close> holds for the statuses 200
  to 299. The source sets no timeout; a request that is never answered is outside the model.
\<close>

datatype fetch_outcome = NoResponse | Response nat "jsval option"

definition response_ok :: "nat \<Rightarrow> bool" where
  "response_ok status = (200 \<le> status \<and> status \<le> 299)"

text \<open>
  The provider is outside the program. It is a parameter: the outcome it gives to the
  \<open>n\<close>-th request of the process (counting from 0) for the query \<open>q\<close>. The query is the
  value of the \<^verbatim>\<open>q\<close> parameter of the URL before \<^verbatim>\<open>encodeURIComponent\<close>, which determines
  the URL (and cannot throw on the strings modelled here, which have no surrogates).
\<close>

type_synonym provider = "nat \<Rightarrow> string \<Rightarrow> fetch_outcome"

text \<open>The two \<^verbatim>\<open>console.error\<close> calls of the source, with their arguments.\<close>

datatype console_entry =
    GeocodingError string thrown      \<comment> \<open>line 65, in \<^verbatim>\<open>geocodeAddress\<close>\<close>
  | FailedToGeocode string thrown     \<comment> \<open>line 93, in \<^verbatim>\<open>geocodeMultipleAddresses\<close>\<close>

text \<open>
  The state the functions act on: the module-level \<^verbatim>\<open>geocodingCache\<close> (line 11), the
  queries sent to the provider so far, and the console.
\<close>

record service_state =
  geocodingCache :: "string \<rightharpoonup> GeocodingResult"
  requests :: "string list"
  console :: "console_entry list"

definition initial_state :: service_state where
  "initial_state = \<lparr>geocodingCache = Map.empty, requests = [], console = []\<rparr>"

definition cache_set :: "service_state \<Rightarrow> string \<Rightarrow> GeocodingResult \<Rightarrow> service_state" where
  "cache_set st k v = st\<lparr>geocodingCache := (geocodingCache st)(k \<mapsto> v)\<rparr>"

definition console_error :: "service_state \<Rightarrow> console_entry \<Rightarrow> service_state" where
  "console_error st e = st\<lparr>console := console st @ [e]\<rparr>"

definition fetch :: "provider \<Rightarrow> service_state \<Rightarrow> string \<Rightarrow> fetch_outcome \<times> service_state" where
  "fetch prov st q = (prov (length (requests st)) q, st\<lparr>requests := requests st @ [q]\<rparr>)"

section \<open>geocodeAddress\<close>

text \<open>
  Line 46, \<^verbatim>\<open>data && data.length > 0 && data[0].lat && data[0].lon\<close>, left to right with
  short-circuit: whether the branch is taken, or the TypeError of reading a property of a
  first element that is \<^verbatim>\<open>null\<close>.
\<close>

definition has_candidate :: "jsval \<Rightarrow> thrown + bool" where
  "has_candidate data =
     (if \<not> truthy data then Inr False
      else and_then (js_length data) (\<lambda>n.
        if \<not> js_gt (toNumber n) (Fin 0) then Inr False
        else and_then (js_first data) (\<lambda>c. and_then (js_prop c ''lat'') (\<lambda>la.
          if \<not> truthy la then Inr False
          else and_then (js_first data) (\<lambda>c. and_then (js_prop c ''lon'') (\<lambda>lo.
            Inr (truthy lo)))))))"

text \<open>Line 50: the check of the parsed pair.\<close>

definition invalid_coordinates :: "jsnum \<Rightarrow> jsnum \<Rightarrow> bool" where
  "invalid_coordinates la lo =
     (isNaN la \<or> isNaN lo \<or> js_lt la (Fin (- 90)) \<or> js_gt la (Fin 90)
      \<or> js_lt lo (Fin (- 180)) \<or> js_gt lo (Fin 180))"

text \<open>Lines 46 to 63: from the parsed body to the result, or to what is thrown.\<close>

definition read_candidate :: "string \<Rightarrow> jsval \<Rightarrow> thrown + GeocodingResult" where
  "read_candidate cleanAddress data =
     and_then (has_candidate data) (\<lambda>present.
       if present then
         and_then (js_first data) (\<lambda>c.
         and_then (js_prop c ''lat'') (\<lambda>la.
         and_then (js_prop c ''lon'') (\<lambda>lo.
           if invalid_coordinates (parseFloat la) (parseFloat lo) then Inl InvalidCoordinates
           else
             and_then (js_prop c ''display_name'') (\<lambda>d.
               Inr \<lparr>coordinates = \<lparr>lat = parseFloat la, lng = parseFloat lo\<rparr>,
                    formattedAddress = (if truthy d then d else JStr cleanAddress)\<rparr>))))
       else Inl AddressNotFound)"

text \<open>
  Lines 36 to 63, the body of \<^verbatim>\<open>try\<close>: one request, then the status, the body and the
  candidate. A result is cached under \<open>address\<close>, the key as received (line 59).
\<close>

definition try_lookup ::
  "provider \<Rightarrow> service_state \<Rightarrow> string \<Rightarrow> string \<Rightarrow> (thrown + GeocodingResult) \<times> service_state" where
  "try_lookup prov st address cleanAddress =
     (let (response, st1) = fetch prov st cleanAddress
      in case response of
           NoResponse \<Rightarrow> (Inl FetchRejected, st1)
         | Response status body \<Rightarrow>
             if \<not> response_ok status then (Inl (RequestFailed status), st1)
             else (case body of
                     None \<Rightarrow> (Inl BodyNotJson, st1)
                   | Some data \<Rightarrow>
                       (case read_candidate cleanAddress data of
                          Inl e \<Rightarrow> (Inl e, st1)
                        | Inr result \<Rightarrow> (Inr result, cache_set st1 address result))))"

text \<open>Lines 67 to 74: the region whose coordinate replaces a failed lookup.\<close>

definition fallback_region :: "string \<Rightarrow> region" where
  "fallback_region lowerAddress =
     (if js_includes lowerAddress ''europe'' \<or> js_includes lowerAddress ''uk''
         \<or> js_includes lowerAddress ''germany'' \<or> js_includes lowerAddress ''france''
      then Europe
      else if js_includes lowerAddress ''asia'' \<or> js_includes lowerAddress ''china''
         \<or> js_includes lowerAddress ''japan'' \<or> js_includes lowerAddress ''india''
      then Asia
      else Default)"

text \<open>Lines 64 to 82, the body of \<^verbatim>\<open>catch\<close>.\<close>

definition catch_lookup ::
  "service_state \<Rightarrow> string \<Rightarrow> string \<Rightarrow> thrown \<Rightarrow> (thrown + GeocodingResult) \<times> service_state" where
  "catch_lookup st address cleanAddress error =
     (let st1 = console_error st (GeocodingError cleanAddress error);
          lowerAddress = toLowerCase cleanAddress;
          fallbackCoords = fallbackCoordinates (fallback_region lowerAddress);
          fallbackResult = \<lparr>coordinates = fallbackCoords, formattedAddress = JStr cleanAddress\<rparr>
      in (Inr fallbackResult, cache_set st1 address fallbackResult))"

text \<open>
  Lines 20 to 83. The function is \<^verbatim>\<open>async\<close>: its result is \<open>Inr\<close> when the promise is
  fulfilled and \<open>Inl\<close> when it is rejected. The parameter \<open>address\<close> has the declared type
  \<^verbatim>\<open>string\<close>.
\<close>

definition geocodeAddress ::
  "provider \<Rightarrow> service_state \<Rightarrow> string \<Rightarrow> (thrown + GeocodingResult) \<times> service_state" where
  "geocodeAddress prov st address =
     (case geocodingCache st address of
        Some cached \<Rightarrow> (Inr cached, st)
      | None \<Rightarrow>
          (let cleanAddress = trim address
           in if cleanAddress = [] then
                (let fallbackResult =
                       \<lparr>coordinates = fallbackCoordinates Default,
                        formattedAddress = JStr ''Unknown Location''\<rparr>
                 in (Inr fallbackResult, cache_set st address fallbackResult))
              else
                (case try_lookup prov st address cleanAddress of
                   (Inr result, st1) \<Rightarrow> (Inr result, st1)
                 | (Inl error, st1) \<Rightarrow> catch_lookup st1 address cleanAddress error)))"

section \<open>geocodeMultipleAddresses\<close>

text \<open>
  Lines 85 to 102. The loop body awaits one resolution and pushes its result, or catches
  what it throws, logs it and pushes the default coordinate with the address as received.
  The loop is written over any resolver, so that the \<^verbatim>\<open>catch\<close> branch can be stated for a
  resolver that throws; the exported function runs it on \<open>geocodeAddress\<close>.
\<close>

type_synonym resolver =
  "service_state \<Rightarrow> string \<Rightarrow> (thrown + GeocodingResult) \<times> service_state"

fun resolve_all ::
  "resolver \<Rightarrow> service_state \<Rightarrow> string list \<Rightarrow> GeocodingResult list
   \<Rightarrow> GeocodingResult list \<times> service_state" where
  "resolve_all resolve st [] results = (results, st)"
| "resolve_all resolve st (address # rest) results =
     (case resolve st address of
        (Inr result, st1) \<Rightarrow> resolve_all resolve st1 rest (results @ [result])
      | (Inl error, st1) \<Rightarrow>
          resolve_all resolve (console_error st1 (FailedToGeocode address error)) rest
            (results @ [\<lparr>coordinates = fallbackCoordinates Default,
                         formattedAddress = JStr address\<rparr>]))"

definition geocodeMultipleAddresses ::
  "provider \<Rightarrow> service_state \<Rightarrow> string list \<Rightarrow> GeocodingResult list \<times> service_state" where
  "geocodeMultipleAddresses prov st addresses =
     resolve_all (geocodeAddress prov) st addresses []"

section \<open>Notions the properties are stated with\<close>

text \<open>The console entries that only the \<^verbatim>\<open>catch\<close> branch of the batch loop writes.\<close>

fun is_batch_failure :: "console_entry \<Rightarrow> bool" where
  "is_batch_failure (FailedToGeocode _ _) = True"
| "is_batch_failure (GeocodingError _ _) = False"

text \<open>
  The Coordinate invariant of the specification: a finite latitude in [-90, 90] and a finite
  longitude in [-180, 180]; and the same for every value the cache holds.
\<close>

fun in_range :: "real \<Rightarrow> real \<Rightarrow> jsnum \<Rightarrow> bool" where
  "in_range lo hi (Fin x) = (lo \<le> x \<and> x \<le> hi)"
| "in_range lo hi _ = False"

definition coordinate_invariant :: "Coordinates \<Rightarrow> bool" where
  "coordinate_invariant c = (in_range (- 90) 90 (lat c) \<and> in_range (- 180) 180 (lng c))"

definition cache_invariant :: "service_state \<Rightarrow> bool" where
  "cache_invariant st =
     (\<forall>a r. geocodingCache st a = Some r \<longrightarrow> coordinate_invariant (coordinates r))"

text \<open>
  The field \<open>k\<close> of a candidate record as the provider sent it; \<^verbatim>\<open>undefined\<close> when the
  candidate has no such field or is no record.
\<close>

definition candidate_field :: "jsval \<Rightarrow> string \<Rightarrow> jsval" where
  "candidate_field c k = (case c of JObj kvs \<Rightarrow> own_property kvs k | _ \<Rightarrow> JUndefined)"

text \<open>
  The failure classes in the words of the specification (section 4.1, step 3): the request
  does not complete (no response, a non-success status, a body that is not JSON), or it
  returns zero candidates, or the latitude or longitude of the first candidate fails to
  parse as a number, or the parsed coordinate lies outside [-90, 90] or [-180, 180]. Bodies
  of other shapes are in none of the classes.
\<close>

definition fails_to_parse :: "jsval \<Rightarrow> bool" where
  "fails_to_parse v = (parseFloat v = NaN)"

fun outside :: "real \<Rightarrow> real \<Rightarrow> jsnum \<Rightarrow> bool" where
  "outside lo hi (Fin x) = (x < lo \<or> hi < x)"
| "outside lo hi PosInfinity = True"
| "outside lo hi NegInfinity = True"
| "outside lo hi NaN = False"

fun lookup_failure :: "fetch_outcome \<Rightarrow> bool" where
  "lookup_failure NoResponse = True"
| "lookup_failure (Response status None) = True"
| "lookup_failure (Response status (Some (JArr []))) = True"
| "lookup_failure (Response status (Some (JArr (c # _)))) =
     (\<not> response_ok status
      \<or> fails_to_parse (candidate_field c ''lat'') \<or> fails_to_parse (candidate_field c ''lon'')
      \<or> outside (- 90) 90 (parseFloat (candidate_field c ''lat''))
      \<or> outside (- 180) 180 (parseFloat (candidate_field c ''lon'')))"
| "lookup_failure (Response status (Some _)) = (\<not> response_ok status)"

text \<open>Substring containment in the words of the specification: \<open>t\<close> occurs somewhere in \<open>s\<close>.\<close>

definition occurs_in :: "string \<Rightarrow> string \<Rightarrow> bool" where
  "occurs_in t s = (\<exists>p q. s = p @ t @ q)"

section \<open>How one call goes\<close>

lemma catch_lookup_result:
  "catch_lookup st address cleanAddress error =
     (Inr \<lparr>coordinates = fallbackCoordinates (fallback_region (toLowerCase cleanAddress)),
           formattedAddress = JStr cleanAddress\<rparr>,
      cache_set (console_error st (GeocodingError cleanAddress error)) address
        \<lparr>coordinates = fallbackCoordinates (fallback_region (toLowerCase cleanAddress)),
         formattedAddress = JStr cleanAddress\<rparr>)"
  by (simp add: catch_lookup_def Let_def)

lemma geocodeAddress_hit:
  "geocodingCache st address = Some cached \<Longrightarrow> geocodeAddress prov st address = (Inr cached, st)"
  by (simp add: geocodeAddress_def)

lemma geocodeAddress_blank:
  "geocodingCache st address = None \<Longrightarrow> trim address = [] \<Longrightarrow>
   geocodeAddress prov st address =
     (Inr \<lparr>coordinates = fallbackCoordinates Default, formattedAddress = JStr ''Unknown Location''\<rparr>,
      cache_set st address
        \<lparr>coordinates = fallbackCoordinates Default, formattedAddress = JStr ''Unknown Location''\<rparr>)"
  by (simp add: geocodeAddress_def Let_def)

lemma geocodeAddress_lookup:
  "geocodingCache st address = None \<Longrightarrow> trim address \<noteq> [] \<Longrightarrow>
   geocodeAddress prov st address =
     (case try_lookup prov st address (trim address) of
        (Inr result, st1) \<Rightarrow> (Inr result, st1)
      | (Inl error, st1) \<Rightarrow> catch_lookup st1 address (trim address) error)"
  by (simp add: geocodeAddress_def Let_def)

text \<open>The outcome of the request as a function of the provider's answer.\<close>

lemma try_lookup_cases:
  "try_lookup prov st address cleanAddress =
     (let st1 = st\<lparr>requests := requests st @ [cleanAddress]\<rparr>
      in case prov (length (requests st)) cleanAddress of
           NoResponse \<Rightarrow> (Inl FetchRejected, st1)
         | Response status body \<Rightarrow>
             if \<not> response_ok status then (Inl (RequestFailed status), st1)
             else (case body of
                     None \<Rightarrow> (Inl BodyNotJson, st1)
                   | Some data \<Rightarrow>
                       (case read_candidate cleanAddress data of
                          Inl e \<Rightarrow> (Inl e, st1)
                        | Inr result \<Rightarrow> (Inr result, cache_set st1 address result))))"
  by (simp add: try_lookup_def fetch_def Let_def)

lemma geocodeAddress_fulfils: "\<exists>result. fst (geocodeAddress prov st address) = Inr result"
proof (cases "geocodingCache st address")
  case (Some cached)
  then show ?thesis by (simp add: geocodeAddress_hit)
next
  case None
  show ?thesis
  proof (cases "trim address = []")
    case True
    with None show ?thesis by (simp add: geocodeAddress_blank)
  next
    case False
    with None show ?thesis
      by (simp add: geocodeAddress_lookup catch_lookup_result split: prod.splits sum.splits)
  qed
qed

lemma try_lookup_requests:
  "requests (snd (try_lookup prov st address cleanAddress)) = requests st @ [cleanAddress]"
  by (simp add: try_lookup_cases Let_def cache_set_def split: fetch_outcome.splits option.splits sum.splits)

lemma try_lookup_console:
  "console (snd (try_lookup prov st address cleanAddress)) = console st"
  by (simp add: try_lookup_cases Let_def cache_set_def split: fetch_outcome.splits option.splits sum.splits)

lemma try_lookup_cache_Inr:
  "try_lookup prov st address cleanAddress = (Inr result, st1) \<Longrightarrow>
   geocodingCache st1 = (geocodingCache st)(address \<mapsto> result)"
  by (auto simp add: try_lookup_cases Let_def cache_set_def split: fetch_outcome.splits option.splits sum.splits if_splits)

lemma try_lookup_cache_Inl:
  "try_lookup prov st address cleanAddress = (Inl error, st1) \<Longrightarrow>
   geocodingCache st1 = geocodingCache st"
  by (auto simp add: try_lookup_cases Let_def cache_set_def split: fetch_outcome.splits option.splits sum.splits if_splits)

text \<open>What a call does to the state when the address is not in the cache.\<close>

lemma geocodeAddress_miss:
  assumes "geocodingCache st address = None"
  shows "\<exists>result st1.
           geocodeAddress prov st address = (Inr result, st1)
           \<and> geocodingCache st1 = (geocodingCache st)(address \<mapsto> result)
           \<and> requests st1 = (if trim address = [] then requests st else requests st @ [trim address])"
proof (cases "trim address = []")
  case True
  with assms show ?thesis
    by (simp add: geocodeAddress_blank cache_set_def)
next
  case False
  obtain res st1 where t: "try_lookup prov st address (trim address) = (res, st1)"
    by (cases "try_lookup prov st address (trim address)")
  have rq: "requests st1 = requests st @ [trim address]"
    using try_lookup_requests [of prov st address "trim address"] t by simp
  show ?thesis
  proof (cases res)
    case (Inr result)
    with t assms False rq try_lookup_cache_Inr [of prov st address "trim address" result st1]
    show ?thesis
      by (simp add: geocodeAddress_lookup)
  next
    case (Inl error)
    with t assms False rq try_lookup_cache_Inl [of prov st address "trim address" error st1]
    show ?thesis
      by (simp add: geocodeAddress_lookup catch_lookup_result cache_set_def console_error_def)
  qed
qed

text \<open>What lines 46 to 63 make of a body that is an array.\<close>

lemma read_candidate_no_candidates: "read_candidate cleanAddress (JArr []) = Inl AddressNotFound"
  by (simp add: read_candidate_def has_candidate_def and_then_def js_gt_def)

lemma read_candidate_first:
  "read_candidate cleanAddress (JArr (c # cs)) =
     (if c = JUndefined \<or> c = JNull then Inl TypeError
      else if \<not> truthy (candidate_field c ''lat'') \<or> \<not> truthy (candidate_field c ''lon'')
        then Inl AddressNotFound
      else if invalid_coordinates (parseFloat (candidate_field c ''lat''))
                (parseFloat (candidate_field c ''lon''))
        then Inl InvalidCoordinates
      else Inr \<lparr>coordinates = \<lparr>lat = parseFloat (candidate_field c ''lat''),
                                lng = parseFloat (candidate_field c ''lon'')\<rparr>,
                formattedAddress =
                  (if truthy (candidate_field c ''display_name'')
                   then candidate_field c ''display_name'' else JStr cleanAddress)\<rparr>)"
  by (cases c)
     (simp_all add: read_candidate_def has_candidate_def and_then_def js_gt_def candidate_field_def)

lemma failed_lookup_falls_back:
  assumes "geocodingCache st address = None" and "trim address \<noteq> []"
    and "fst (try_lookup prov st address (trim address)) = Inl error"
  shows "geocodeAddress prov st address =
     (Inr \<lparr>coordinates = fallbackCoordinates (fallback_region (toLowerCase (trim address))),
           formattedAddress = JStr (trim address)\<rparr>,
      cache_set (console_error (snd (try_lookup prov st address (trim address)))
                   (GeocodingError (trim address) error)) address
        \<lparr>coordinates = fallbackCoordinates (fallback_region (toLowerCase (trim address))),
         formattedAddress = JStr (trim address)\<rparr>)"
  using assms
  by (cases "try_lookup prov st address (trim address)")
     (simp add: geocodeAddress_lookup catch_lookup_result)

section \<open>The resolver never fails\<close>

lemma geocodeAddress_batch_failures:
  "filter is_batch_failure (console (snd (geocodeAddress prov st address)))
     = filter is_batch_failure (console st)"
proof (cases "geocodingCache st address")
  case (Some cached)
  then show ?thesis by (simp add: geocodeAddress_hit)
next
  case None
  show ?thesis
  proof (cases "trim address = []")
    case True
    with None show ?thesis by (simp add: geocodeAddress_blank cache_set_def)
  next
    case False
    obtain res st1 where t: "try_lookup prov st address (trim address) = (res, st1)"
      by (cases "try_lookup prov st address (trim address)")
    have "console st1 = console st"
      using try_lookup_console [of prov st address "trim address"] t by simp
    with None False t show ?thesis
      by (cases res) (simp_all add: geocodeAddress_lookup catch_lookup_result cache_set_def console_error_def)
  qed
qed

lemma resolve_all_geocodeAddress_failures:
  "filter is_batch_failure (console (snd (resolve_all (geocodeAddress prov) st addresses results)))
     = filter is_batch_failure (console st)"
proof (induction addresses arbitrary: st results)
  case Nil
  show ?case by simp
next
  case (Cons address rest)
  obtain result st1 where g: "geocodeAddress prov st address = (Inr result, st1)"
    using geocodeAddress_fulfils [of prov st address]
    by (cases "geocodeAddress prov st address") auto
  have "filter is_batch_failure (console st1) = filter is_batch_failure (console st)"
    using geocodeAddress_batch_failures [of prov st address] g by simp
  with g Cons.IH [of st1 "results @ [result]"] show ?case by simp
qed

text \<open>
  Claim C1. Whatever the address (a string) and whatever the provider answers (no response,
  a status outside 200 to 299, a body that is not JSON, a body of any shape), the promise of
  \<open>geocodeAddress\<close> is fulfilled with a result and never rejected. Consequently the
  \<^verbatim>\<open>catch\<close> branch of the loop in \<open>geocodeMultipleAddresses\<close> never runs: the branch
  writes a \<open>FailedToGeocode\<close> entry to the console each time it runs, and a batch leaves
  the list of those entries as it found it.
\<close>

theorem geocodeAddress_never_rejects:
  "(\<exists>result. fst (geocodeAddress prov st address) = Inr result)
   \<and> filter is_batch_failure (console (snd (geocodeMultipleAddresses prov st addresses)))
       = filter is_batch_failure (console st)"
  using geocodeAddress_fulfils [of prov st address]
    resolve_all_geocodeAddress_failures [of prov st addresses "[]"]
  by (simp add: geocodeMultipleAddresses_def)

section \<open>The cache answers the second call\<close>

lemma geocodeAddress_caches:
  "\<exists>result. fst (geocodeAddress prov st address) = Inr result
     \<and> geocodingCache (snd (geocodeAddress prov st address)) address = Some result"
proof (cases "geocodingCache st address")
  case (Some cached)
  then show ?thesis by (simp add: geocodeAddress_hit)
next
  case None
  from geocodeAddress_miss [OF None, of prov] show ?thesis by auto
qed

lemma geocodeAddress_keeps:
  "geocodingCache st a = Some r \<Longrightarrow>
   geocodingCache (snd (geocodeAddress prov st address)) a = Some r"
proof (cases "geocodingCache st address")
  case (Some cached)
  assume "geocodingCache st a = Some r"
  with Some show ?thesis by (simp add: geocodeAddress_hit)
next
  case None
  assume a: "geocodingCache st a = Some r"
  with None have "a \<noteq> address" by auto
  with a geocodeAddress_miss [OF None, of prov] show ?thesis by auto
qed

lemma resolve_all_warm:
  "list_all (\<lambda>a. geocodingCache st a \<noteq> None) addresses \<Longrightarrow>
   resolve_all (geocodeAddress prov) st addresses results
     = (results @ map (\<lambda>a. the (geocodingCache st a)) addresses, st)"
proof (induction addresses arbitrary: results)
  case Nil
  show ?case by simp
next
  case (Cons address rest)
  then obtain cached where c: "geocodingCache st address = Some cached" by auto
  from Cons.prems have "list_all (\<lambda>a. geocodingCache st a \<noteq> None) rest" by simp
  from Cons.IH [OF this, of "results @ [cached]"] c show ?case
    by (simp add: geocodeAddress_hit)
qed

lemma resolve_all_cold:
  "resolve_all (geocodeAddress prov) st addresses results = (out, st') \<Longrightarrow>
   out = results @ map (\<lambda>a. the (geocodingCache st' a)) addresses
   \<and> list_all (\<lambda>a. geocodingCache st' a \<noteq> None) addresses
   \<and> (\<forall>a r. geocodingCache st a = Some r \<longrightarrow> geocodingCache st' a = Some r)"
proof (induction addresses arbitrary: st results)
  case Nil
  then show ?case by simp
next
  case (Cons address rest)
  obtain result where f: "fst (geocodeAddress prov st address) = Inr result"
    and c: "geocodingCache (snd (geocodeAddress prov st address)) address = Some result"
    using geocodeAddress_caches [of prov st address] by blast
  define st1 where "st1 = snd (geocodeAddress prov st address)"
  have g: "geocodeAddress prov st address = (Inr result, st1)"
    using f by (simp add: st1_def prod_eq_iff)
  from Cons.prems g have r: "resolve_all (geocodeAddress prov) st1 rest (results @ [result]) = (out, st')"
    by simp
  note ih = Cons.IH [OF r]
  have keep: "\<And>a r. geocodingCache st a = Some r \<Longrightarrow> geocodingCache st1 a = Some r"
    using geocodeAddress_keeps [of st _ _ prov address] by (simp add: st1_def)
  have here: "geocodingCache st' address = Some result"
    using ih c by (simp add: st1_def)
  show ?case using ih here keep by simp
qed

text \<open>
  Claim C2. After a first call of \<open>geocodeAddress\<close> on an address, a second call on the
  same address returns the same result and leaves the state as it is, so it sends no
  request, whatever the provider would answer by then (\<open>prov2\<close>). Likewise a second run
  of \<open>geocodeMultipleAddresses\<close> on the same addresses returns the same results and sends
  no request.
\<close>

theorem second_call_is_cache_hit:
  "geocodeAddress prov2 (snd (geocodeAddress prov st address)) address
     = (fst (geocodeAddress prov st address), snd (geocodeAddress prov st address))
   \<and> requests (snd (geocodeAddress prov2 (snd (geocodeAddress prov st address)) address))
     = requests (snd (geocodeAddress prov st address))
   \<and> geocodeMultipleAddresses prov2 (snd (geocodeMultipleAddresses prov st addresses)) addresses
     = (fst (geocodeMultipleAddresses prov st addresses),
        snd (geocodeMultipleAddresses prov st addresses))
   \<and> requests (snd (geocodeMultipleAddresses prov2
                       (snd (geocodeMultipleAddresses prov st addresses)) addresses))
     = requests (snd (geocodeMultipleAddresses prov st addresses))"
proof -
  obtain result where f: "fst (geocodeAddress prov st address) = Inr result"
    and c: "geocodingCache (snd (geocodeAddress prov st address)) address = Some result"
    using geocodeAddress_caches [of prov st address] by blast
  have one: "geocodeAddress prov2 (snd (geocodeAddress prov st address)) address
     = (fst (geocodeAddress prov st address), snd (geocodeAddress prov st address))"
    using f geocodeAddress_hit [OF c, of prov2] by simp
  obtain out st' where r: "resolve_all (geocodeAddress prov) st addresses [] = (out, st')"
    by (cases "resolve_all (geocodeAddress prov) st addresses []")
  from resolve_all_cold [OF r]
  have o: "out = map (\<lambda>a. the (geocodingCache st' a)) addresses"
    and w: "list_all (\<lambda>a. geocodingCache st' a \<noteq> None) addresses" by simp_all
  have many: "geocodeMultipleAddresses prov2 (snd (geocodeMultipleAddresses prov st addresses)) addresses
     = (fst (geocodeMultipleAddresses prov st addresses),
        snd (geocodeMultipleAddresses prov st addresses))"
    using r o resolve_all_warm [OF w, of prov2 "[]"] by (simp add: geocodeMultipleAddresses_def)
  show ?thesis using one many by simp
qed

theorem second_call_is_cache_hit_witness:
  "fst (geocodeAddress (\<lambda>n q. NoResponse) initial_state ''Berlin, Germany'')
     = Inr \<lparr>coordinates = \<lparr>lat = Fin 54.526, lng = Fin 15.2551\<rparr>,
            formattedAddress = JStr ''Berlin, Germany''\<rparr>
   \<and> geocodeAddress
        (\<lambda>n q. Response 200 (Some (JArr [JObj [(''lat'', JStr ''52.52''), (''lon'', JStr ''13.40'')]])))
        (snd (geocodeAddress (\<lambda>n q. NoResponse) initial_state ''Berlin, Germany''))
        ''Berlin, Germany''
     = (Inr \<lparr>coordinates = \<lparr>lat = Fin 54.526, lng = Fin 15.2551\<rparr>,
             formattedAddress = JStr ''Berlin, Germany''\<rparr>,
        snd (geocodeAddress (\<lambda>n q. NoResponse) initial_state ''Berlin, Germany''))
   \<and> requests (snd (geocodeAddress
        (\<lambda>n q. Response 200 (Some (JArr [JObj [(''lat'', JStr ''52.52''), (''lon'', JStr ''13.40'')]])))
        (snd (geocodeAddress (\<lambda>n q. NoResponse) initial_state ''Berlin, Germany''))
        ''Berlin, Germany''))
     = [''Berlin, Germany'']"
proof -
  have f: "fst (geocodeAddress (\<lambda>n q. NoResponse) initial_state ''Berlin, Germany'')
     = Inr \<lparr>coordinates = \<lparr>lat = Fin 54.526, lng = Fin 15.2551\<rparr>,
            formattedAddress = JStr ''Berlin, Germany''\<rparr>"
    by code_simp
  have r: "requests (snd (geocodeAddress (\<lambda>n q. NoResponse) initial_state ''Berlin, Germany''))
     = [''Berlin, Germany'']"
    by code_simp
  show ?thesis
    using f r second_call_is_cache_hit [of
        "\<lambda>n q. Response 200 (Some (JArr [JObj [(''lat'', JStr ''52.52''), (''lon'', JStr ''13.40'')]]))"
        "\<lambda>n q. NoResponse" initial_state "''Berlin, Germany''" "[]"]
    by simp
qed

section \<open>Failed lookups\<close>

lemma outside_invalid:
  "parseFloat la = NaN \<or> parseFloat lo = NaN \<or> outside (- 90) 90 (parseFloat la)
     \<or> outside (- 180) 180 (parseFloat lo)
   \<Longrightarrow> invalid_coordinates (parseFloat la) (parseFloat lo)"
  by (cases "parseFloat la"; cases "parseFloat lo")
     (auto simp add: invalid_coordinates_def isNaN_def js_gt_def)

lemma lookup_failure_throws:
  assumes "lookup_failure (prov (length (requests st)) cleanAddress)"
  shows "\<exists>error. fst (try_lookup prov st address cleanAddress) = Inl error"
proof (cases "prov (length (requests st)) cleanAddress")
  case NoResponse
  then show ?thesis by (simp add: try_lookup_cases Let_def)
next
  case (Response status body)
  show ?thesis
  proof (cases body)
    case None
    with Response show ?thesis by (simp add: try_lookup_cases Let_def)
  next
    case (Some data)
    show ?thesis
    proof (cases "response_ok status")
      case False
      with Response show ?thesis by (simp add: try_lookup_cases Let_def)
    next
      case True
      have "\<exists>error. read_candidate cleanAddress data = Inl error"
      proof (cases data)
        case (JArr xs)
        show ?thesis
        proof (cases xs)
          case Nil
          with JArr show ?thesis by (simp add: read_candidate_no_candidates)
        next
          case (Cons c cs)
          with assms Response Some JArr True
          have "invalid_coordinates (parseFloat (candidate_field c ''lat''))
                  (parseFloat (candidate_field c ''lon''))"
            by (intro outside_invalid) (simp add: fails_to_parse_def)
          with JArr Cons show ?thesis by (simp add: read_candidate_first)
        qed
      qed (use assms Response Some True in simp_all)
      with Response Some True show ?thesis
        by (auto simp add: try_lookup_cases Let_def)
    qed
  qed
qed

text \<open>
  Claim C3. For an address whose trimmed form is not empty and for which a request is made
  (the address is not in the cache), every failure class of the specification gives the
  same result: the regional fallback coordinate for the address, with the trimmed address
  as text, cached under the address as received. Which class occurred does not show in
  the result. At the specification's example, the address \<^verbatim>\<open>xyz\<close> with a latitude
  \<^verbatim>\<open>"200"\<close>, the result holds the default coordinate and not the value 200.
\<close>

theorem every_failure_same_fallback:
  assumes "geocodingCache st address = None" and "trim address \<noteq> []"
    and "lookup_failure (prov (length (requests st)) (trim address))"
  shows "fst (geocodeAddress prov st address) =
           Inr \<lparr>coordinates = fallbackCoordinates (fallback_region (toLowerCase (trim address))),
                formattedAddress = JStr (trim address)\<rparr>
         \<and> geocodingCache (snd (geocodeAddress prov st address)) address =
           Some \<lparr>coordinates = fallbackCoordinates (fallback_region (toLowerCase (trim address))),
                 formattedAddress = JStr (trim address)\<rparr>"
proof -
  from assms(3) lookup_failure_throws [of prov st "trim address" address] obtain error
    where "fst (try_lookup prov st address (trim address)) = Inl error" by blast
  from failed_lookup_falls_back [OF assms(1,2) this] show ?thesis
    by (simp add: cache_set_def)
qed

theorem every_failure_same_fallback_witness:
  "geocodingCache initial_state ''xyz'' = None \<and> trim ''xyz'' \<noteq> []
   \<and> lookup_failure (Response 200 (Some (JArr [JObj [(''lat'', JStr ''200''), (''lon'', JStr ''10'')]])))
   \<and> fst (geocodeAddress
        (\<lambda>n q. Response 200 (Some (JArr [JObj [(''lat'', JStr ''200''), (''lon'', JStr ''10'')]])))
        initial_state ''xyz'')
     = Inr \<lparr>coordinates = \<lparr>lat = Fin 39.8283, lng = Fin (- 98.5795)\<rparr>,
            formattedAddress = JStr ''xyz''\<rparr>"
proof -
  let ?prov = "\<lambda>(n::nat) (q::string).
      Response 200 (Some (JArr [JObj [(''lat'', JStr ''200''), (''lon'', JStr ''10'')]]))"
  have c: "geocodingCache initial_state ''xyz'' = None" by (simp add: initial_state_def)
  have t: "trim ''xyz'' \<noteq> []" by code_simp
  have l: "lookup_failure (Response 200 (Some (JArr [JObj [(''lat'', JStr ''200''), (''lon'', JStr ''10'')]])))"
    by code_simp
  then have l': "lookup_failure (?prov (length (requests initial_state)) (trim ''xyz''))" by simp
  have e: "fallbackCoordinates (fallback_region (toLowerCase (trim ''xyz'')))
      = \<lparr>lat = Fin 39.8283, lng = Fin (- 98.5795)\<rparr>" by code_simp
  have x: "trim ''xyz'' = ''xyz''" by code_simp
  show ?thesis
    using c t l every_failure_same_fallback [OF c t l'] e x by simp
qed

section \<open>The region of the fallback\<close>

lemma is_prefix_iff: "is_prefix t s \<longleftrightarrow> (\<exists>q. s = t @ q)"
  by (induction t s rule: is_prefix.induct) auto

lemma js_includes_iff: "js_includes s t \<longleftrightarrow> occurs_in t s"
proof (induction s)
  case Nil
  show ?case by (simp add: occurs_in_def)
next
  case (Cons c s)
  have "occurs_in t (c # s) \<longleftrightarrow> (\<exists>q. c # s = t @ q) \<or> occurs_in t s"
  proof
    assume "occurs_in t (c # s)"
    then obtain p q where pq: "c # s = p @ t @ q" by (auto simp add: occurs_in_def)
    show "(\<exists>q. c # s = t @ q) \<or> occurs_in t s"
    proof (cases p)
      case Nil
      with pq show ?thesis by auto
    next
      case (Cons a p')
      with pq have "s = p' @ t @ q" by simp
      then show ?thesis by (auto simp add: occurs_in_def)
    qed
  next
    assume "(\<exists>q. c # s = t @ q) \<or> occurs_in t s"
    then show "occurs_in t (c # s)"
    proof
      assume "\<exists>q. c # s = t @ q"
      then obtain q where "c # s = [] @ t @ q" by auto
      then show ?thesis unfolding occurs_in_def by blast
    next
      assume "occurs_in t s"
      then obtain p q where "s = p @ t @ q" by (auto simp add: occurs_in_def)
      then have "c # s = (c # p) @ t @ q" by simp
      then show ?thesis unfolding occurs_in_def by blast
    qed
  qed
  with Cons show ?case by (simp add: is_prefix_iff)
qed

text \<open>
  Claim C4. When the lookup of an address whose trimmed form is not empty fails (the body
  of \<^verbatim>\<open>try\<close> throws), the result holds the coordinate of the first region, in the order
  europe, asia, that has one of its keywords somewhere in the trimmed, lower-cased
  address: (54.526, 15.2551) for \<^verbatim>\<open>europe\<close>, \<^verbatim>\<open>uk\<close>, \<^verbatim>\<open>germany\<close>, \<^verbatim>\<open>france\<close>;
  (34.0479, 100.6197) for \<^verbatim>\<open>asia\<close>, \<^verbatim>\<open>china\<close>, \<^verbatim>\<open>japan\<close>, \<^verbatim>\<open>india\<close>; the default
  (39.8283, -98.5795) otherwise. Its text is the trimmed address. There is no word
  boundary: an address with \<^verbatim>\<open>UKULELE\<close> in it selects europe.
\<close>

theorem fallback_by_substring:
  assumes "geocodingCache st address = None" and "trim address \<noteq> []"
    and "fst (try_lookup prov st address (trim address)) = Inl error"
  shows "fst (geocodeAddress prov st address) =
           Inr \<lparr>coordinates =
                  (if occurs_in ''europe'' (toLowerCase (trim address))
                      \<or> occurs_in ''uk'' (toLowerCase (trim address))
                      \<or> occurs_in ''germany'' (toLowerCase (trim address))
                      \<or> occurs_in ''france'' (toLowerCase (trim address))
                   then \<lparr>lat = Fin 54.526, lng = Fin 15.2551\<rparr>
                   else if occurs_in ''asia'' (toLowerCase (trim address))
                      \<or> occurs_in ''china'' (toLowerCase (trim address))
                      \<or> occurs_in ''japan'' (toLowerCase (trim address))
                      \<or> occurs_in ''india'' (toLowerCase (trim address))
                   then \<lparr>lat = Fin 34.0479, lng = Fin 100.6197\<rparr>
                   else \<lparr>lat = Fin 39.8283, lng = Fin (- 98.5795)\<rparr>),
                formattedAddress = JStr (trim address)\<rparr>"
  using failed_lookup_falls_back [OF assms]
  by (simp add: fallback_region_def js_includes_iff)

theorem fallback_by_substring_witness:
  "geocodingCache initial_state ''  My UKULELE shop '' = None
   \<and> trim ''  My UKULELE shop '' = ''My UKULELE shop''
   \<and> fst (try_lookup (\<lambda>n q. NoResponse) initial_state ''  My UKULELE shop ''
            (trim ''  My UKULELE shop '')) = Inl FetchRejected
   \<and> fst (geocodeAddress (\<lambda>n q. NoResponse) initial_state ''  My UKULELE shop '')
     = Inr \<lparr>coordinates = \<lparr>lat = Fin 54.526, lng = Fin 15.2551\<rparr>,
            formattedAddress = JStr ''My UKULELE shop''\<rparr>"
proof -
  have c: "geocodingCache initial_state ''  My UKULELE shop '' = None"
    by (simp add: initial_state_def)
  have x: "trim ''  My UKULELE shop '' = ''My UKULELE shop''" by code_simp
  then have t: "trim ''  My UKULELE shop '' \<noteq> []" by simp
  have f: "fst (try_lookup (\<lambda>n q. NoResponse) initial_state ''  My UKULELE shop ''
            (trim ''  My UKULELE shop '')) = Inl FetchRejected"
    by (simp add: try_lookup_cases)
  have "js_includes (toLowerCase (trim ''  My UKULELE shop '')) ''uk''" by code_simp
  then have u: "occurs_in ''uk'' (toLowerCase (trim ''  My UKULELE shop ''))"
    by (simp add: js_includes_iff)
  show ?thesis
    using c x f u fallback_by_substring [OF c t f] by simp
qed

section \<open>Successful lookups\<close>

text \<open>
  A first candidate whose \<^verbatim>\<open>lat\<close> and \<^verbatim>\<open>lon\<close> are truthy and parse to a pair in range is
  returned and cached: its parsed pair, with the provider's \<^verbatim>\<open>display_name\<close> when that is
  truthy and the trimmed address otherwise. This covers the provider's own format, where
  both fields are non-empty strings, as in the example of the specification.
\<close>

lemma lookup_success:
  assumes "geocodingCache st address = None" and "trim address \<noteq> []"
    and "prov (length (requests st)) (trim address) = Response status (Some (JArr (c # cs)))"
    and "response_ok status"
    and "truthy (candidate_field c ''lat'')" and "truthy (candidate_field c ''lon'')"
    and "\<not> invalid_coordinates (parseFloat (candidate_field c ''lat''))
            (parseFloat (candidate_field c ''lon''))"
  shows "fst (geocodeAddress prov st address) =
           Inr \<lparr>coordinates = \<lparr>lat = parseFloat (candidate_field c ''lat''),
                                  lng = parseFloat (candidate_field c ''lon'')\<rparr>,
                formattedAddress =
                  (if truthy (candidate_field c ''display_name'')
                   then candidate_field c ''display_name'' else JStr (trim address))\<rparr>
         \<and> geocodingCache (snd (geocodeAddress prov st address)) address =
           Some \<lparr>coordinates = \<lparr>lat = parseFloat (candidate_field c ''lat''),
                                  lng = parseFloat (candidate_field c ''lon'')\<rparr>,
                formattedAddress =
                  (if truthy (candidate_field c ''display_name'')
                   then candidate_field c ''display_name'' else JStr (trim address))\<rparr>"
proof -
  from assms(5,6) have "c \<noteq> JUndefined" and "c \<noteq> JNull"
    by (auto simp add: candidate_field_def)
  with assms show ?thesis
    by (simp add: geocodeAddress_lookup try_lookup_cases Let_def read_candidate_first cache_set_def)
qed

lemma springfield_example:
  "fst (geocodeAddress
          (\<lambda>n q. Response 200 (Some (JArr [JObj [(''lat'', JStr ''39.77''), (''lon'', JStr ''-89.65''),
                     (''display_name'', JStr ''Springfield, IL, USA'')]])))
          initial_state ''123 Main St, Springfield'')
     = Inr \<lparr>coordinates = \<lparr>lat = Fin 39.77, lng = Fin (- 89.65)\<rparr>,
            formattedAddress = JStr ''Springfield, IL, USA''\<rparr>"
  by code_simp

text \<open>
  Claim C5. The claim is that every first candidate whose latitude and longitude parse to
  numbers in range is returned with its parsed pair. The code does not do so for a
  candidate whose \<^verbatim>\<open>lat\<close> and \<^verbatim>\<open>lon\<close> are the number 0: both parse to 0, which line 50
  accepts, but line 46 tests the fields for truthiness and 0 is falsy. For the address
  \<^verbatim>\<open>null island\<close> and the body \<^verbatim>\<open>[{"lat": 0, "lon": 0, "display_name": "Gulf of Guinea"}]\<close>
  the code returns the default fallback coordinate and the address as text.
\<close>

theorem zero_coordinates_fall_back:
  "parseFloat (JNum (Fin 0)) = Fin 0
   \<and> \<not> invalid_coordinates (Fin 0) (Fin 0)
   \<and> fst (geocodeAddress
          (\<lambda>n q. Response 200 (Some (JArr [JObj [(''lat'', JNum (Fin 0)), (''lon'', JNum (Fin 0)),
                     (''display_name'', JStr ''Gulf of Guinea'')]])))
          initial_state ''null island'')
     = Inr \<lparr>coordinates = \<lparr>lat = Fin 39.8283, lng = Fin (- 98.5795)\<rparr>,
            formattedAddress = JStr ''null island''\<rparr>"
  by code_simp

text \<open>
  Claim C10. There are successful responses whose first candidate has a latitude or
  longitude that is falsy and still parses to a valid number, namely the number 0: for
  every such response the candidate is taken as absent (line 62 throws
  \<^verbatim>\<open>Address not found\<close>) and the call returns the regional fallback for the address
  instead of the parsed pair.
\<close>

theorem zero_field_taken_as_absent:
  assumes "geocodingCache st address = None" and "trim address \<noteq> []"
    and "prov (length (requests st)) (trim address) = Response status (Some (JArr (JObj kvs # cs)))"
    and "response_ok status"
    and "own_property kvs ''lat'' = JNum (Fin 0) \<or> own_property kvs ''lon'' = JNum (Fin 0)"
  shows "parseFloat (JNum (Fin 0)) = Fin 0
         \<and> in_range (- 90) 90 (Fin 0) \<and> in_range (- 180) 180 (Fin 0)
         \<and> fst (try_lookup prov st address (trim address)) = Inl AddressNotFound
         \<and> fst (geocodeAddress prov st address) =
             Inr \<lparr>coordinates = fallbackCoordinates (fallback_region (toLowerCase (trim address))),
                  formattedAddress = JStr (trim address)\<rparr>"
proof -
  have "\<not> truthy (candidate_field (JObj kvs) ''lat'') \<or> \<not> truthy (candidate_field (JObj kvs) ''lon'')"
    using assms(5) by (auto simp add: candidate_field_def)
  then have "read_candidate (trim address) (JArr (JObj kvs # cs)) = Inl AddressNotFound"
    by (simp add: read_candidate_first)
  with assms(3,4) have t: "fst (try_lookup prov st address (trim address)) = Inl AddressNotFound"
    by (simp add: try_lookup_cases Let_def)
  from failed_lookup_falls_back [OF assms(1,2) t] t show ?thesis by simp
qed

theorem zero_field_taken_as_absent_witness:
  "geocodingCache initial_state ''Quito, Ecuador'' = None \<and> trim ''Quito, Ecuador'' \<noteq> []
   \<and> response_ok 200
   \<and> own_property [(''lat'', JNum (Fin 0)), (''lon'', JStr ''-78.5'')] ''lat'' = JNum (Fin 0)
   \<and> \<not> invalid_coordinates (parseFloat (JNum (Fin 0))) (parseFloat (JStr ''-78.5''))
   \<and> fst (geocodeAddress
        (\<lambda>n q. Response 200 (Some (JArr [JObj [(''lat'', JNum (Fin 0)), (''lon'', JStr ''-78.5'')]])))
        initial_state ''Quito, Ecuador'')
     = Inr \<lparr>coordinates = \<lparr>lat = Fin 39.8283, lng = Fin (- 98.5795)\<rparr>,
            formattedAddress = JStr ''Quito, Ecuador''\<rparr>"
proof -
  let ?kvs = "[(''lat'', JNum (Fin 0)), (''lon'', JStr ''-78.5'')]"
  let ?prov = "\<lambda>(n::nat) (q::string). Response 200 (Some (JArr [JObj ?kvs]))"
  have c: "geocodingCache initial_state ''Quito, Ecuador'' = None" by (simp add: initial_state_def)
  have x: "trim ''Quito, Ecuador'' = ''Quito, Ecuador''" by code_simp
  then have t: "trim ''Quito, Ecuador'' \<noteq> []" by simp
  have p: "?prov (length (requests initial_state)) (trim ''Quito, Ecuador'')
      = Response 200 (Some (JArr (JObj ?kvs # [])))" by simp
  have k: "response_ok 200" by (simp add: response_ok_def)
  have z: "own_property ?kvs ''lat'' = JNum (Fin 0) \<or> own_property ?kvs ''lon'' = JNum (Fin 0)"
    by (simp add: own_property_def)
  have v: "\<not> invalid_coordinates (parseFloat (JNum (Fin 0))) (parseFloat (JStr ''-78.5''))"
    by code_simp
  have e: "fallbackCoordinates (fallback_region (toLowerCase (trim ''Quito, Ecuador'')))
      = \<lparr>lat = Fin 39.8283, lng = Fin (- 98.5795)\<rparr>" by code_simp
  show ?thesis
    using c t k v e x zero_field_taken_as_absent [OF c t p k z]
    by (simp add: own_property_def)
qed

section \<open>Blank addresses\<close>

text \<open>
  Claim C6. For an address that is not in the cache and whose trimmed form is empty,
  \<open>geocodeAddress\<close> returns the default coordinate (39.8283, -98.5795) with the text
  \<^verbatim>\<open>Unknown Location\<close>, stores that result under the address as received, and sends no
  request.
\<close>

theorem empty_address_default:
  assumes "geocodingCache st address = None" and "trim address = []"
  shows "fst (geocodeAddress prov st address) =
           Inr \<lparr>coordinates = \<lparr>lat = Fin 39.8283, lng = Fin (- 98.5795)\<rparr>,
                formattedAddress = JStr ''Unknown Location''\<rparr>
         \<and> geocodingCache (snd (geocodeAddress prov st address)) =
             (geocodingCache st)(address \<mapsto>
               \<lparr>coordinates = \<lparr>lat = Fin 39.8283, lng = Fin (- 98.5795)\<rparr>,
                formattedAddress = JStr ''Unknown Location''\<rparr>)
         \<and> requests (snd (geocodeAddress prov st address)) = requests st"
  using assms by (simp add: geocodeAddress_blank cache_set_def)

theorem empty_address_default_witness:
  "geocodingCache initial_state ''   '' = None \<and> trim ''   '' = []
   \<and> fst (geocodeAddress (\<lambda>n q. NoResponse) initial_state ''   '') =
           Inr \<lparr>coordinates = \<lparr>lat = Fin 39.8283, lng = Fin (- 98.5795)\<rparr>,
                formattedAddress = JStr ''Unknown Location''\<rparr>
   \<and> geocodingCache (snd (geocodeAddress (\<lambda>n q. NoResponse) initial_state ''   '')) ''   '' =
           Some \<lparr>coordinates = \<lparr>lat = Fin 39.8283, lng = Fin (- 98.5795)\<rparr>,
                formattedAddress = JStr ''Unknown Location''\<rparr>
   \<and> requests (snd (geocodeAddress (\<lambda>n q. NoResponse) initial_state ''   '')) = []"
proof -
  have c: "geocodingCache initial_state ''   '' = None" by (simp add: initial_state_def)
  have t: "trim ''   '' = []" by (simp add: trim_def is_white_space_def)
  show ?thesis
    using c t empty_address_default [OF c t, of "\<lambda>n q. NoResponse"]
    by (simp add: initial_state_def)
qed

section \<open>The batch\<close>

lemma resolve_all_results:
  "resolve_all resolve st addresses results
     = (results @ fst (resolve_all resolve st addresses []),
        snd (resolve_all resolve st addresses []))"
proof (induction addresses arbitrary: st results)
  case Nil
  show ?case by simp
next
  case (Cons address rest)
  obtain res st1 where r: "resolve st address = (res, st1)"
    by (cases "resolve st address")
  show ?case
  proof (cases res)
    case (Inr result)
    with r Cons.IH [of st1 "results @ [result]"] Cons.IH [of st1 "[result]"]
    show ?thesis by simp
  next
    case (Inl error)
    let ?st2 = "console_error st1 (FailedToGeocode address error)"
    let ?fb = "\<lparr>coordinates = fallbackCoordinates Default, formattedAddress = JStr address\<rparr>"
    from Inl r Cons.IH [of ?st2 "results @ [?fb]"] Cons.IH [of ?st2 "[?fb]"]
    show ?thesis by simp
  qed
qed

lemma resolve_all_append:
  "resolve_all resolve st (xs @ ys) results
     = resolve_all resolve (snd (resolve_all resolve st xs results)) ys
         (fst (resolve_all resolve st xs results))"
  by (induction xs arbitrary: st results) (simp_all split: prod.splits sum.splits)

lemma resolve_all_length:
  "length (fst (resolve_all resolve st addresses results)) = length results + length addresses"
  by (induction addresses arbitrary: st results) (simp_all split: prod.splits sum.splits)

lemma resolve_all_head:
  "fst (resolve_all resolve st (address # rest) []) ! 0
     = (case fst (resolve st address) of
          Inr result \<Rightarrow> result
        | Inl error \<Rightarrow> \<lparr>coordinates = fallbackCoordinates Default, formattedAddress = JStr address\<rparr>)"
proof -
  obtain res st1 where r: "resolve st address = (res, st1)"
    by (cases "resolve st address")
  show ?thesis
  proof (cases res)
    case (Inr result)
    with r resolve_all_results [of resolve st1 rest "[result]"] show ?thesis by simp
  next
    case (Inl error)
    with r resolve_all_results [of resolve "console_error st1 (FailedToGeocode address error)" rest
        "[\<lparr>coordinates = fallbackCoordinates Default, formattedAddress = JStr address\<rparr>]"]
    show ?thesis by simp
  qed
qed

lemma resolve_all_nth:
  assumes "i < length addresses"
  shows "fst (resolve_all resolve st addresses []) ! i
     = (case fst (resolve (snd (resolve_all resolve st (take i addresses) [])) (addresses ! i)) of
          Inr result \<Rightarrow> result
        | Inl error \<Rightarrow>
            \<lparr>coordinates = fallbackCoordinates Default, formattedAddress = JStr (addresses ! i)\<rparr>)"
proof -
  let ?xs = "take i addresses" and ?ys = "addresses ! i # drop (Suc i) addresses"
  let ?st1 = "snd (resolve_all resolve st ?xs [])"
  let ?done = "fst (resolve_all resolve st ?xs [])"
  have split: "addresses = ?xs @ ?ys"
    using assms by (simp add: id_take_nth_drop)
  have len: "length ?done = i"
    using assms resolve_all_length [of resolve st ?xs "[]"] by simp
  have "resolve_all resolve st (?xs @ ?ys) [] = resolve_all resolve ?st1 ?ys ?done"
    by (rule resolve_all_append)
  then have "fst (resolve_all resolve st addresses [])
      = ?done @ fst (resolve_all resolve ?st1 ?ys [])"
    using split resolve_all_results [of resolve ?st1 ?ys ?done] by simp
  then have "fst (resolve_all resolve st addresses []) ! i
      = fst (resolve_all resolve ?st1 ?ys []) ! 0"
    using len by (simp add: nth_append)
  then show ?thesis by (simp only: resolve_all_head)
qed

lemma resolve_all_last_state:
  "snd (resolve_all resolve st (xs @ [a]) [])
     = (case resolve (snd (resolve_all resolve st xs [])) a of
          (Inr result, st1) \<Rightarrow> st1
        | (Inl error, st1) \<Rightarrow> console_error st1 (FailedToGeocode a error))"
proof -
  have "resolve_all resolve st (xs @ [a]) []
      = resolve_all resolve (snd (resolve_all resolve st xs [])) [a]
          (fst (resolve_all resolve st xs []))"
    by (rule resolve_all_append)
  then show ?thesis
    by (simp split: prod.splits sum.splits)
qed

lemma resolve_all_state_step:
  assumes "i < length addresses"
  shows "snd (resolve_all resolve st (take (Suc i) addresses) [])
     = (case resolve (snd (resolve_all resolve st (take i addresses) [])) (addresses ! i) of
          (Inr result, st1) \<Rightarrow> st1
        | (Inl error, st1) \<Rightarrow> console_error st1 (FailedToGeocode (addresses ! i) error))"
  using assms resolve_all_last_state [of resolve st "take i addresses" "addresses ! i"]
  by (simp add: take_Suc_conv_app_nth)

text \<open>
  Claim C7. The batch returns one result for each address, in the order of the addresses.
  The result at position \<open>i\<close> is what resolving the \<open>i\<close>-th address gives in the state
  that the first \<open>i\<close> addresses left behind; when that resolution throws, the result is
  the default coordinate with the address as text, and the loop goes on with the next
  address. The loop is sequential: it starts in the state it is given, and the state after
  the first \<open>i + 1\<close> addresses is the state in which the resolution of the \<open>i\<close>-th
  address, run after the first \<open>i\<close>, ends (with the console entry of the \<^verbatim>\<open>catch\<close>
  branch when it throws). This holds for the loop over any resolver; for the exported
  function, whose resolver is \<open>geocodeAddress\<close>, every result is the resolution itself
  and every state the one that resolution leaves.
\<close>

theorem batch_one_result_per_address:
  "length (fst (resolve_all resolve st addresses [])) = length addresses
   \<and> (\<forall>i<length addresses.
        fst (resolve_all resolve st addresses []) ! i
          = (case fst (resolve (snd (resolve_all resolve st (take i addresses) []))
                         (addresses ! i)) of
               Inr result \<Rightarrow> result
             | Inl error \<Rightarrow>
                 \<lparr>coordinates = fallbackCoordinates Default,
                  formattedAddress = JStr (addresses ! i)\<rparr>))
   \<and> length (fst (geocodeMultipleAddresses prov st addresses)) = length addresses
   \<and> (\<forall>i<length addresses.
        Inr (fst (geocodeMultipleAddresses prov st addresses) ! i)
          = fst (geocodeAddress prov (snd (geocodeMultipleAddresses prov st (take i addresses)))
                  (addresses ! i)))
   \<and> snd (resolve_all resolve st [] []) = st
   \<and> (\<forall>i<length addresses.
        snd (resolve_all resolve st (take (Suc i) addresses) [])
          = (case resolve (snd (resolve_all resolve st (take i addresses) []))
                    (addresses ! i) of
               (Inr result, st1) \<Rightarrow> st1
             | (Inl error, st1) \<Rightarrow>
                 console_error st1 (FailedToGeocode (addresses ! i) error)))
   \<and> snd (geocodeMultipleAddresses prov st []) = st
   \<and> (\<forall>i<length addresses.
        snd (geocodeMultipleAddresses prov st (take (Suc i) addresses))
          = snd (geocodeAddress prov (snd (geocodeMultipleAddresses prov st (take i addresses)))
                  (addresses ! i)))"
proof -
  have a: "length (fst (resolve_all r st addresses [])) = length addresses" for r
    using resolve_all_length [of r st addresses "[]"] by simp
  have b: "\<forall>i<length addresses.
        Inr (fst (geocodeMultipleAddresses prov st addresses) ! i)
          = fst (geocodeAddress prov (snd (geocodeMultipleAddresses prov st (take i addresses)))
                  (addresses ! i))"
  proof (intro allI impI)
    fix i assume i: "i < length addresses"
    let ?st1 = "snd (resolve_all (geocodeAddress prov) st (take i addresses) [])"
    obtain result where f: "fst (geocodeAddress prov ?st1 (addresses ! i)) = Inr result"
      using geocodeAddress_fulfils by blast
    with resolve_all_nth [OF i, of "geocodeAddress prov" st]
    show "Inr (fst (geocodeMultipleAddresses prov st addresses) ! i)
          = fst (geocodeAddress prov (snd (geocodeMultipleAddresses prov st (take i addresses)))
                  (addresses ! i))"
      by (simp add: geocodeMultipleAddresses_def)
  qed
  have c: "\<forall>i<length addresses.
        snd (geocodeMultipleAddresses prov st (take (Suc i) addresses))
          = snd (geocodeAddress prov (snd (geocodeMultipleAddresses prov st (take i addresses)))
                  (addresses ! i))"
  proof (intro allI impI)
    fix i assume i: "i < length addresses"
    let ?st1 = "snd (resolve_all (geocodeAddress prov) st (take i addresses) [])"
    obtain result st2 where g: "geocodeAddress prov ?st1 (addresses ! i) = (Inr result, st2)"
      using geocodeAddress_fulfils [of prov ?st1 "addresses ! i"]
      by (cases "geocodeAddress prov ?st1 (addresses ! i)") auto
    with resolve_all_state_step [OF i, of "geocodeAddress prov" st]
    show "snd (geocodeMultipleAddresses prov st (take (Suc i) addresses))
          = snd (geocodeAddress prov (snd (geocodeMultipleAddresses prov st (take i addresses)))
                  (addresses ! i))"
      by (simp add: geocodeMultipleAddresses_def)
  qed
  have d: "\<forall>i<length addresses.
        snd (resolve_all resolve st (take (Suc i) addresses) [])
          = (case resolve (snd (resolve_all resolve st (take i addresses) []))
                    (addresses ! i) of
               (Inr result, st1) \<Rightarrow> st1
             | (Inl error, st1) \<Rightarrow>
                 console_error st1 (FailedToGeocode (addresses ! i) error))"
    using resolve_all_state_step [of _ addresses resolve st] by blast
  have e: "\<forall>i<length addresses.
        fst (resolve_all resolve st addresses []) ! i
          = (case fst (resolve (snd (resolve_all resolve st (take i addresses) []))
                         (addresses ! i)) of
               Inr result \<Rightarrow> result
             | Inl error \<Rightarrow>
                 \<lparr>coordinates = fallbackCoordinates Default,
                  formattedAddress = JStr (addresses ! i)\<rparr>)"
    using resolve_all_nth [of _ addresses resolve st] by blast
  have f: "length (fst (geocodeMultipleAddresses prov st addresses)) = length addresses"
    using a [of "geocodeAddress prov"] by (simp add: geocodeMultipleAddresses_def)
  have g: "snd (geocodeMultipleAddresses prov st []) = st"
    by (simp add: geocodeMultipleAddresses_def)
  have h: "snd (resolve_all resolve st [] []) = st" by simp
  from a [of resolve] e f b h d g c show ?thesis by blast
qed

theorem batch_one_result_per_address_witness:
  "length (fst (resolve_all
      (\<lambda>st a. if a = ''B'' then (Inl TypeError, st)
               else geocodeAddress
                 (\<lambda>n q. if n = 0 then NoResponse
                         else Response 200 (Some (JArr [JObj [(''lat'', JStr ''35.68''),
                                (''lon'', JStr ''139.69'')]]))) st a)
      initial_state [''A'', ''B'', ''C''] [])) = 3
   \<and> (1::nat) < length [''A'', ''B'', ''C''] \<and> (2::nat) < length [''A'', ''B'', ''C'']
   \<and> fst (resolve_all
      (\<lambda>st a. if a = ''B'' then (Inl TypeError, st)
               else geocodeAddress
                 (\<lambda>n q. if n = 0 then NoResponse
                         else Response 200 (Some (JArr [JObj [(''lat'', JStr ''35.68''),
                                (''lon'', JStr ''139.69'')]]))) st a)
      initial_state [''A'', ''B'', ''C''] []) ! 1
     = \<lparr>coordinates = \<lparr>lat = Fin 39.8283, lng = Fin (- 98.5795)\<rparr>, formattedAddress = JStr ''B''\<rparr>
   \<and> fst (resolve_all
      (\<lambda>st a. if a = ''B'' then (Inl TypeError, st)
               else geocodeAddress
                 (\<lambda>n q. if n = 0 then NoResponse
                         else Response 200 (Some (JArr [JObj [(''lat'', JStr ''35.68''),
                                (''lon'', JStr ''139.69'')]]))) st a)
      initial_state [''A'', ''B'', ''C''] []) ! 2
     = \<lparr>coordinates = \<lparr>lat = Fin 35.68, lng = Fin 139.69\<rparr>, formattedAddress = JStr ''C''\<rparr>
   \<and> requests (snd (resolve_all
      (\<lambda>st a. if a = ''B'' then (Inl TypeError, st)
               else geocodeAddress
                 (\<lambda>n q. if n = 0 then NoResponse
                         else Response 200 (Some (JArr [JObj [(''lat'', JStr ''35.68''),
                                (''lon'', JStr ''139.69'')]]))) st a)
      initial_state (take (Suc 2) [''A'', ''B'', ''C'']) [])) = [''A'', ''C'']"
proof -
  let ?prov = "\<lambda>(n::nat) (q::string). if n = 0 then NoResponse
                 else Response 200 (Some (JArr [JObj [(''lat'', JStr ''35.68''),
                        (''lon'', JStr ''139.69'')]]))"
  let ?resolve = "\<lambda>st a. if a = ''B'' then (Inl TypeError, st) else geocodeAddress ?prov st a"
  let ?addresses = "[''A'', ''B'', ''C'']"
  note t = batch_one_result_per_address [of ?resolve initial_state ?addresses]
  have n: "length (fst (resolve_all ?resolve initial_state ?addresses [])) = 3"
    using t by simp
  have "fst (resolve_all ?resolve initial_state ?addresses []) ! 1
     = \<lparr>coordinates = \<lparr>lat = Fin 39.8283, lng = Fin (- 98.5795)\<rparr>, formattedAddress = JStr ''B''\<rparr>"
    using t [THEN conjunct2, THEN conjunct1, THEN spec, of 1] by simp
  moreover
  have c: "fst (?resolve (snd (resolve_all ?resolve initial_state (take 2 ?addresses) []))
                 (?addresses ! 2))
      = Inr \<lparr>coordinates = \<lparr>lat = Fin 35.68, lng = Fin 139.69\<rparr>, formattedAddress = JStr ''C''\<rparr>"
    by code_simp
  have "fst (resolve_all ?resolve initial_state ?addresses []) ! 2
     = \<lparr>coordinates = \<lparr>lat = Fin 35.68, lng = Fin 139.69\<rparr>, formattedAddress = JStr ''C''\<rparr>"
    using t [THEN conjunct2, THEN conjunct1, THEN spec, of 2] c by simp
  moreover
  have s: "requests (case ?resolve (snd (resolve_all ?resolve initial_state (take 2 ?addresses) []))
                    (?addresses ! 2) of
               (Inr result, st1) \<Rightarrow> st1
             | (Inl error, st1) \<Rightarrow> console_error st1 (FailedToGeocode (?addresses ! 2) error))
      = [''A'', ''C'']"
    by code_simp
  have "requests (snd (resolve_all ?resolve initial_state (take (Suc 2) ?addresses) []))
      = [''A'', ''C'']"
    using t [THEN conjunct2, THEN conjunct2, THEN conjunct2, THEN conjunct2, THEN conjunct2,
             THEN conjunct1, THEN spec, of 2] s
    by simp
  ultimately show ?thesis using n by simp
qed

section \<open>The Coordinate invariant\<close>

lemma fallbackCoordinates_invariant: "coordinate_invariant (fallbackCoordinates g)"
  by (cases g) (simp_all add: coordinate_invariant_def)

lemma valid_coordinates_in_range:
  "\<not> invalid_coordinates la lo \<Longrightarrow> in_range (- 90) 90 la \<and> in_range (- 180) 180 lo"
  by (cases la; cases lo) (simp_all add: invalid_coordinates_def isNaN_def js_gt_def)

lemma read_candidate_invariant:
  "read_candidate cleanAddress data = Inr result \<Longrightarrow> coordinate_invariant (coordinates result)"
  by (auto simp add: read_candidate_def and_then_def coordinate_invariant_def
        dest: valid_coordinates_in_range split: sum.splits if_splits)

lemma try_lookup_invariant:
  "try_lookup prov st address cleanAddress = (Inr result, st1) \<Longrightarrow>
   coordinate_invariant (coordinates result)"
  by (auto simp add: try_lookup_cases Let_def dest: read_candidate_invariant
        split: fetch_outcome.splits option.splits sum.splits if_splits)

lemma geocodeAddress_result_invariant:
  assumes "cache_invariant st" and "fst (geocodeAddress prov st address) = Inr result"
  shows "coordinate_invariant (coordinates result)"
proof (cases "geocodingCache st address")
  case (Some cached)
  with assms show ?thesis by (auto simp add: geocodeAddress_hit cache_invariant_def)
next
  case None
  show ?thesis
  proof (cases "trim address = []")
    case True
    with None assms(2) show ?thesis
      by (auto simp add: geocodeAddress_blank fallbackCoordinates_invariant simp del: fallbackCoordinates.simps)
  next
    case False
    obtain res st1 where t: "try_lookup prov st address (trim address) = (res, st1)"
      by (cases "try_lookup prov st address (trim address)")
    show ?thesis
    proof (cases res)
      case (Inr r)
      with t None False assms(2) try_lookup_invariant [of prov st address "trim address" r st1]
      show ?thesis by (simp add: geocodeAddress_lookup)
    next
      case (Inl e)
      with t None False assms(2) show ?thesis
        by (auto simp add: geocodeAddress_lookup catch_lookup_result fallbackCoordinates_invariant simp del: fallbackCoordinates.simps)
    qed
  qed
qed

lemma geocodeAddress_cache_invariant:
  assumes "cache_invariant st"
  shows "cache_invariant (snd (geocodeAddress prov st address))"
proof (cases "geocodingCache st address")
  case (Some cached)
  with assms show ?thesis by (simp add: geocodeAddress_hit)
next
  case None
  from geocodeAddress_miss [OF None, of prov] obtain result st1 where
    g: "geocodeAddress prov st address = (Inr result, st1)"
    and c: "geocodingCache st1 = (geocodingCache st)(address \<mapsto> result)" by blast
  from g have "coordinate_invariant (coordinates result)"
    using geocodeAddress_result_invariant [OF assms, of prov address result] by simp
  with assms g c show ?thesis by (simp add: cache_invariant_def)
qed

lemma resolve_all_invariant:
  "cache_invariant st \<Longrightarrow> list_all (\<lambda>r. coordinate_invariant (coordinates r)) results \<Longrightarrow>
   list_all (\<lambda>r. coordinate_invariant (coordinates r))
        (fst (resolve_all (geocodeAddress prov) st addresses results))
   \<and> cache_invariant (snd (resolve_all (geocodeAddress prov) st addresses results))"
proof (induction addresses arbitrary: st results)
  case Nil
  then show ?case by simp
next
  case (Cons address rest)
  obtain result st1 where g: "geocodeAddress prov st address = (Inr result, st1)"
    using geocodeAddress_fulfils [of prov st address]
    by (cases "geocodeAddress prov st address") auto
  have r: "coordinate_invariant (coordinates result)"
    using geocodeAddress_result_invariant [OF Cons.prems(1), of prov address result] g by simp
  have c: "cache_invariant st1"
    using geocodeAddress_cache_invariant [OF Cons.prems(1), of prov address] g by simp
  from Cons.IH [OF c, of "results @ [result]"] Cons.prems(2) r g show ?case by simp
qed

text \<open>
  Claim C8. The cache is empty when the process starts, so it satisfies the invariant;
  and from a cache that satisfies it, every result that \<open>geocodeAddress\<close> or
  \<open>geocodeMultipleAddresses\<close> returns has a latitude in [-90, 90] and a longitude in
  [-180, 180], and the cache they leave satisfies the invariant again. Hence every result
  ever returned and every value ever cached is in range.
\<close>

theorem coordinates_always_in_range:
  "cache_invariant initial_state
   \<and> (cache_invariant st \<longrightarrow>
        (\<forall>result. fst (geocodeAddress prov st address) = Inr result
            \<longrightarrow> coordinate_invariant (coordinates result))
        \<and> cache_invariant (snd (geocodeAddress prov st address))
        \<and> list_all (\<lambda>r. coordinate_invariant (coordinates r))
            (fst (geocodeMultipleAddresses prov st addresses))
        \<and> cache_invariant (snd (geocodeMultipleAddresses prov st addresses)))"
proof -
  have "cache_invariant initial_state"
    by (simp add: cache_invariant_def initial_state_def)
  moreover have "cache_invariant st \<Longrightarrow>
      list_all (\<lambda>r. coordinate_invariant (coordinates r))
            (fst (geocodeMultipleAddresses prov st addresses))
        \<and> cache_invariant (snd (geocodeMultipleAddresses prov st addresses))"
    using resolve_all_invariant [of st "[]" prov addresses]
    by (simp add: geocodeMultipleAddresses_def)
  ultimately show ?thesis
    using geocodeAddress_result_invariant [of st prov address]
      geocodeAddress_cache_invariant [of st prov address]
    by blast
qed

theorem coordinates_always_in_range_witness:
  "cache_invariant initial_state
   \<and> fst (geocodeAddress
        (\<lambda>n q. Response 200 (Some (JArr [JObj [(''lat'', JStr ''95.5''), (''lon'', JStr ''-181'')]])))
        initial_state ''North Pole'')
     = Inr \<lparr>coordinates = \<lparr>lat = Fin 39.8283, lng = Fin (- 98.5795)\<rparr>,
            formattedAddress = JStr ''North Pole''\<rparr>
   \<and> coordinate_invariant \<lparr>lat = Fin 39.8283, lng = Fin (- 98.5795)\<rparr>
   \<and> cache_invariant (snd (geocodeAddress
        (\<lambda>n q. Response 200 (Some (JArr [JObj [(''lat'', JStr ''95.5''), (''lon'', JStr ''-181'')]])))
        initial_state ''North Pole''))"
proof -
  let ?prov = "\<lambda>(n::nat) (q::string).
      Response 200 (Some (JArr [JObj [(''lat'', JStr ''95.5''), (''lon'', JStr ''-181'')]]))"
  have f: "fst (geocodeAddress ?prov initial_state ''North Pole'')
     = Inr \<lparr>coordinates = \<lparr>lat = Fin 39.8283, lng = Fin (- 98.5795)\<rparr>,
            formattedAddress = JStr ''North Pole''\<rparr>"
    by code_simp
  show ?thesis
    using f coordinates_always_in_range [of initial_state ?prov "''North Pole''" "[]"]
    by simp
qed

section \<open>What a call changes\<close>

text \<open>
  Claim C9. A call of \<open>geocodeAddress\<close> on an address that the cache holds changes
  nothing. On an address that the cache does not hold it adds exactly the entry for that
  address, with the result it returns, and changes no other entry. It sends at most one
  request, and none when the cache holds the address or the trimmed address is empty.
\<close>

theorem one_entry_one_request:
  "(geocodingCache st address \<noteq> None \<longrightarrow> snd (geocodeAddress prov st address) = st)
   \<and> (geocodingCache st address = None \<longrightarrow>
        (\<exists>result. fst (geocodeAddress prov st address) = Inr result
           \<and> geocodingCache (snd (geocodeAddress prov st address))
               = (geocodingCache st)(address \<mapsto> result)))
   \<and> (requests (snd (geocodeAddress prov st address)) = requests st
        \<or> requests (snd (geocodeAddress prov st address)) = requests st @ [trim address])
   \<and> (geocodingCache st address \<noteq> None \<or> trim address = [] \<longrightarrow>
        requests (snd (geocodeAddress prov st address)) = requests st)"
proof (cases "geocodingCache st address")
  case (Some cached)
  then show ?thesis by (simp add: geocodeAddress_hit)
next
  case None
  from geocodeAddress_miss [OF None, of prov] None show ?thesis by (auto split: if_splits)
qed

theorem one_entry_one_request_witness:
  "geocodingCache initial_state ''Paris, France'' = None
   \<and> geocodingCache (snd (geocodeAddress (\<lambda>n q. NoResponse) initial_state ''Paris, France''))
     = (geocodingCache initial_state)(''Paris, France'' \<mapsto>
          \<lparr>coordinates = \<lparr>lat = Fin 54.526, lng = Fin 15.2551\<rparr>,
           formattedAddress = JStr ''Paris, France''\<rparr>)
   \<and> requests (snd (geocodeAddress (\<lambda>n q. NoResponse) initial_state ''Paris, France''))
     = [''Paris, France'']
   \<and> geocodingCache initial_state ''  '' = None \<and> trim ''  '' = []
   \<and> requests (snd (geocodeAddress (\<lambda>n q. NoResponse) initial_state ''  '')) = []"
proof -
  have c: "geocodingCache initial_state ''Paris, France'' = None"
    and c': "geocodingCache initial_state ''  '' = None"
    by (simp_all add: initial_state_def)
  have t: "trim ''  '' = []" by code_simp
  have f: "fst (geocodeAddress (\<lambda>n q. NoResponse) initial_state ''Paris, France'')
     = Inr \<lparr>coordinates = \<lparr>lat = Fin 54.526, lng = Fin 15.2551\<rparr>,
            formattedAddress = JStr ''Paris, France''\<rparr>"
    by code_simp
  have r: "requests (snd (geocodeAddress (\<lambda>n q. NoResponse) initial_state ''Paris, France''))
     = [''Paris, France'']"
    by code_simp
  have i: "requests initial_state = []" by (simp add: initial_state_def)
  show ?thesis
    using c c' t f r i
      one_entry_one_request [of initial_state "''Paris, France''" "\<lambda>n q. NoResponse"]
      one_entry_one_request [of initial_state "''  ''" "\<lambda>n q. NoResponse"]
    by simp
qed

end
